theory Spec2Isabelle
  imports Main
begin

section \<open>Text and Python truthiness\<close>

text \<open>
  A Python \<open>str\<close> is a sequence of Unicode code points, so a text is a list of code
  points. \<open>str\<close> turns an ASCII literal into such a text.
\<close>

type_synonym pystr = "nat list"

definition str :: "string \<Rightarrow> pystr" where
  "str s = map of_char s"

text \<open>\<open>if x:\<close> on an optional integer and on an optional string.\<close>

fun truthy_int :: "int option \<Rightarrow> bool" where
  "truthy_int None = False"
| "truthy_int (Some n) = (n \<noteq> 0)"

fun truthy_text :: "pystr option \<Rightarrow> bool" where
  "truthy_text None = False"
| "truthy_text (Some s) = (s \<noteq> [])"

section \<open>The suppression patterns (core/utils/status/templates.py)\<close>

text \<open>
  The patterns of \<open>templates.py\<close> use two kinds of atoms only: a lower-case letter,
  compiled with \<open>re.IGNORECASE\<close>, and \<open>\s\<close>. Under \<open>re.VERBOSE\<close> the blanks and
  the comments of the pattern text are dropped. A pattern is an alternation of sequences
  of atoms; \<open>Lit p\<close> is the literal with the code point \<open>p\<close>, which for anything but a
  lower-case ASCII letter (a digit, a punctuation mark) matches that code point only.
\<close>

datatype atom = Lit nat | Space

type_synonym regex = "atom list list"

text \<open>The code points that \<open>\s\<close> matches in a \<open>str\<close> pattern.\<close>

definition is_space :: "nat \<Rightarrow> bool" where
  "is_space c \<longleftrightarrow>
     (9 \<le> c \<and> c \<le> 13) \<or> (28 \<le> c \<and> c \<le> 32) \<or> c = 133 \<or> c = 160 \<or> c = 5760 \<or>
     (8192 \<le> c \<and> c \<le> 8202) \<or> c = 8232 \<or> c = 8233 \<or> c = 8239 \<or> c = 8287 \<or> c = 12288"

text \<open>
  The code points that a lower-case ASCII letter matches under \<open>re.IGNORECASE\<close>: the
  letter, its capital, and the code points whose case mapping is that letter
  (dotted capital and dotless small i, long s, the Kelvin sign).
\<close>

definition ignorecase_variants :: "nat \<Rightarrow> nat list" where
  "ignorecase_variants p =
     [p, p - 32] @
     (if p = 105 then [304, 305] else if p = 115 then [383] else if p = 107 then [8490] else [])"

fun atom_matches :: "atom \<Rightarrow> nat \<Rightarrow> bool" where
  "atom_matches Space c = is_space c"
| "atom_matches (Lit p) c =
     (if 97 \<le> p \<and> p \<le> 122 then c \<in> set (ignorecase_variants p) else c = p)"

text \<open>One alternative matches at the start of the text.\<close>

fun match_here :: "atom list \<Rightarrow> pystr \<Rightarrow> bool" where
  "match_here [] s = True"
| "match_here (a # as) [] = False"
| "match_here (a # as) (c # s) = (atom_matches a c \<and> match_here as s)"

text \<open>\<open>pattern.search(s)\<close>: some alternative matches at some position of the text.\<close>

fun search :: "regex \<Rightarrow> pystr \<Rightarrow> bool" where
  "search r [] = list_ex (\<lambda>a. match_here a []) r"
| "search r (c # s) = (list_ex (\<lambda>a. match_here a (c # s)) r \<or> search r s)"

definition lits :: "string \<Rightarrow> atom list" where
  "lits s = map (\<lambda>c. Lit (of_char c)) s"

definition DO_NOT_POST :: regex where
  "DO_NOT_POST =
    [lits ''pro'' @ [Space] @ lits ''hac'' @ [Space] @ lits ''vice'',
     lits ''notice'' @ [Space] @ lits ''of'' @ [Space] @ lits ''appearance'',
     lits ''certificate'' @ [Space] @ lits ''of'' @ [Space] @ lits ''disclosure'',
     lits ''corporate'' @ [Space] @ lits ''disclosure'',
     lits ''add'' @ [Space] @ lits ''and'' @ [Space] @ lits ''terminate'' @ [Space] @
       lits ''attorneys'',
     lits ''none'']"

section \<open>Data model\<close>

text \<open>
  Modelled from the spec: the status values of a FilingWebhookEvent. The model class
  (\<open>bc/subscription/models.py\<close>) is not among the sources; \<open>tasks.py\<close> names
  \<open>SUCCESSFUL\<close>, \<open>FAILED\<close>, \<open>IGNORED\<close> and \<open>WAITING_FOR_DOCUMENT\<close>, and the
  spec calls the state before linking \<open>RECEIVED\<close>.
\<close>

datatype fwe_status = RECEIVED | SUCCESSFUL | FAILED | IGNORED | WAITING_FOR_DOCUMENT

text \<open>
  Modelled from the spec: the model classes Subscription, FilingWebhookEvent, Channel, Group
  and Sponsorship and the types DocumentDict and Document, none of which is among the
  sources. The records have the fields that \<open>tasks.py\<close> reads and writes, under the
  names it uses; the external ids (docket id, document id) are optional integers, so that
  \<open>not docket_id\<close> holds of \<open>None\<close> and of 0, and the texts are strings.
\<close>

record Subscription =
  sub_pk :: nat
  cl_docket_id :: "int option"
  docket_name :: pystr
  docket_number :: pystr
  court_name :: pystr
  pacer_court_id :: pystr

text \<open>
  \<open>filing_webhook_event.subscription\<close> is the related Subscription object or
  \<open>None\<close>; the tasks never write to the Subscription table.
\<close>

record FilingWebhookEvent =
  docket_id :: "int option"
  doc_id :: "int option"
  pacer_doc_id :: "pystr option"
  description :: pystr
  status :: fwe_status
  subscription :: "Subscription option"

record Sponsorship =
  watermark_message :: pystr

record Group =
  group_pk :: nat
  sponsorships :: "Sponsorship list"

record Channel =
  channel_pk :: nat
  service :: nat
  group :: "Group option"

text \<open>The answer of the document lookups (\<open>DocumentDict\<close>).\<close>

record DocumentDict =
  dd_id :: "int option"
  filepath_local :: "pystr option"
  page_count :: "int option"
  dd_pacer_doc_id :: "pystr option"
  absolute_url :: pystr

text \<open>
  The value object handed to the purchase ledger. Its description is either
  \<open>f"Initial Complaint from {subscription.docket_name}"\<close> or \<open>str(filing_webhook_event)\<close>.
\<close>

datatype document_description =
  Initial_Complaint_from pystr
| Str_of_event FilingWebhookEvent

record Document =
  doc_description :: document_description
  doc_page_count :: "int option"
  doc_docket_number :: pystr
  doc_court_name :: pystr
  doc_court_id :: pystr

text \<open>One call of \<open>log_purchase(sponsor_groups, subscription.pk, document)\<close>.\<close>

type_synonym ledger_entry = "nat list \<times> nat \<times> Document"

text \<open>
  Thumbnails are kept symbolic: \<open>get_thumbnails_from_range(download_pdf_from_cl(url), range)\<close>
  and \<open>add_sponsored_text_to_thumbnails(files, text)\<close>.
\<close>

datatype thumbnails =
  Thumbnails pystr string
| Sponsored thumbnails pystr

record Post =
  post_event :: nat
  post_channel :: nat
  object_id :: pystr
  post_text :: pystr

text \<open>
  The two kinds of job that the tasks put on the queue: \<open>make_post_for_webhook_event\<close>
  with (channel pk, event pk, document url, sponsor message), and \<open>api.add_status\<close> of a
  channel with (message, None, files). Every job carries the retry policy of the settings.
\<close>

datatype job =
  Make_post nat nat "pystr option" "pystr option"
| Add_status nat pystr "thumbnails option"

record Retry =
  retry_max :: nat
  retry_interval :: "nat list"

datatype error =
  FilingWebhookEvent_DoesNotExist
| Subscription_DoesNotExist
| Subscription_MultipleObjectsReturned
| Channel_DoesNotExist
| Channel_MultipleObjectsReturned
| AssertionError
| TypeError
| AttributeError

datatype record_type = filing_webhook | subscription_record

section \<open>The store, the outside world and the collaborators\<close>

text \<open>The relational store: what a transaction rolls back.\<close>

record db =
  events :: "nat \<rightharpoonup> FilingWebhookEvent"
  subscriptions :: "Subscription list"
  channels :: "Channel list"
  ledger :: "ledger_entry list"
  posts :: "Post list"

text \<open>
  The world is the store together with what leaves the process and is not rolled back:
  the purchase requests sent (\<open>purchase_pdf_by_doc_id(doc_id, docket_id)\<close>), the jobs
  on the queue and the statuses published on a platform.
\<close>

record world =
  store :: db
  purchases :: "(int option \<times> int option) list"
  queue :: "(job \<times> Retry) list"
  published :: "(nat \<times> pystr \<times> thumbnails option) list"

text \<open>
  The selectors, lookups, settings and templates that \<open>tasks.py\<close> imports and that are
  not among the sources are parameters of the model. \<open>DO_NOT_PAY\<close> is imported from
  \<open>templates.py\<close> but not defined in the file at hand. \<open>webhook_message\<close> stands for
  \<open>get_template_for_channel(...).format(...)\<close> and returns the message and whether the
  template produced an image; \<open>new_case_message\<close> stands for
  \<open>get_new_case_template(...).format(...)\<close>; \<open>add_status\<close> is the identifier that the
  platform returns.
\<close>

record env =
  get_channels_per_subscription :: "nat \<Rightarrow> Channel list"
  get_sponsored_groups_per_subscription :: "nat \<Rightarrow> nat list"
  check_active_sponsorships :: "nat \<Rightarrow> bool"
  lookup_document_by_doc_id :: "int option \<Rightarrow> DocumentDict option"
  lookup_initial_complaint :: "int option \<Rightarrow> DocumentDict option"
  DO_NOT_PAY :: regex
  webhook_message :: "Channel \<Rightarrow> FilingWebhookEvent \<Rightarrow> Subscription \<Rightarrow> pystr \<times> bool"
  new_case_message :: "Subscription \<Rightarrow> Channel \<Rightarrow> DocumentDict option \<Rightarrow> pystr"
  add_status :: "Channel \<Rightarrow> pystr \<Rightarrow> pystr"
  RQ_MAX_NUMBER_OF_RETRIES :: nat
  RQ_POST_RETRY_INTERVALS :: "nat list"

type_synonym 'a result = "(error + 'a) \<times> world"

text \<open>
  \<open>@transaction.atomic\<close>: when the body raises, the writes it made to the store are rolled
  back and the exception goes on to the caller; requests already sent and jobs already
  queued stay.
\<close>

definition atomic :: "(world \<Rightarrow> 'a result) \<Rightarrow> world \<Rightarrow> 'a result" where
  "atomic body w =
     (case body w of
        (Inl e, w') \<Rightarrow> (Inl e, w'\<lparr>store := store w\<rparr>)
      | (Inr v, w') \<Rightarrow> (Inr v, w'))"

text \<open>\<open>Model.objects.get(...)\<close> on a table: exactly one row must satisfy the condition.\<close>

definition objects_get :: "error \<Rightarrow> error \<Rightarrow> ('a \<Rightarrow> bool) \<Rightarrow> 'a list \<Rightarrow> error + 'a" where
  "objects_get does_not_exist multiple P rows =
     (case filter P rows of
        [] \<Rightarrow> Inl does_not_exist
      | [x] \<Rightarrow> Inr x
      | _ \<Rightarrow> Inl multiple)"

text \<open>\<open>filing_webhook_event.save()\<close> writes every field of the object to its row.\<close>

definition save :: "nat \<Rightarrow> FilingWebhookEvent \<Rightarrow> world \<Rightarrow> world" where
  "save fwe_pk e w = w\<lparr>store := (store w)\<lparr>events := (events (store w))(fwe_pk \<mapsto> e)\<rparr>\<rparr>"

text \<open>\<open>filing_webhook_event.save(update_fields=["status"])\<close> writes the status only.\<close>

definition save_status :: "nat \<Rightarrow> FilingWebhookEvent \<Rightarrow> world \<Rightarrow> world" where
  "save_status fwe_pk e w =
     (case events (store w) fwe_pk of
        None \<Rightarrow> w
      | Some row \<Rightarrow>
          w\<lparr>store := (store w)\<lparr>events := (events (store w))(fwe_pk \<mapsto> row\<lparr>status := status e\<rparr>)\<rparr>\<rparr>)"

text \<open>
  \<open>queue.enqueue(job, ..., retry=Retry(max=settings.RQ_MAX_NUMBER_OF_RETRIES,
  interval=settings.RQ_POST_RETRY_INTERVALS))\<close>.
\<close>

definition retry_policy :: "env \<Rightarrow> Retry" where
  "retry_policy E =
     \<lparr>retry_max = RQ_MAX_NUMBER_OF_RETRIES E, retry_interval = RQ_POST_RETRY_INTERVALS E\<rparr>"

definition enqueue :: "env \<Rightarrow> job \<Rightarrow> world \<Rightarrow> world" where
  "enqueue E j w = w\<lparr>queue := queue w @ [(j, retry_policy E)]\<rparr>"

definition purchase_pdf_by_doc_id :: "int option \<Rightarrow> int option \<Rightarrow> world \<Rightarrow> world" where
  "purchase_pdf_by_doc_id d k w = w\<lparr>purchases := purchases w @ [(d, k)]\<rparr>"

definition log_purchase :: "nat list \<Rightarrow> nat \<Rightarrow> Document \<Rightarrow> world \<Rightarrow> world" where
  "log_purchase sponsor_groups subscription_pk document w =
     w\<lparr>store := (store w)\<lparr>ledger := ledger (store w) @
        [(sponsor_groups, subscription_pk, document)]\<rparr>\<rparr>"

section \<open>The tasks (subscription/tasks.py)\<close>

subsection \<open>Dispatch: one job per channel\<close>

text \<open>
  The loop of \<open>enqueue_posts_for_docket_alert\<close>. \<open>channel.group.sponsorships.all()\<close> is
  evaluated for every channel, before the flag is looked at, and raises AttributeError on
  a channel without a group.
\<close>

fun docket_alert_loop ::
  "env \<Rightarrow> nat \<Rightarrow> pystr option \<Rightarrow> bool \<Rightarrow> Channel list \<Rightarrow> world \<Rightarrow> unit result" where
  "docket_alert_loop E fwe_pk document_url check_sponsor_message [] w = (Inr (), w)"
| "docket_alert_loop E fwe_pk document_url check_sponsor_message (channel # rest) w =
     (case group channel of
        None \<Rightarrow> (Inl AttributeError, w)
      | Some g \<Rightarrow>
          let sponsorships_for_channel = sponsorships g;
              sponsor_message =
                (if check_sponsor_message \<and> sponsorships_for_channel \<noteq> []
                 then Some (watermark_message (hd sponsorships_for_channel))
                 else None)
          in docket_alert_loop E fwe_pk document_url check_sponsor_message rest
               (enqueue E (Make_post (channel_pk channel) fwe_pk document_url sponsor_message) w))"

definition enqueue_posts_for_docket_alert ::
  "env \<Rightarrow> nat \<Rightarrow> FilingWebhookEvent \<Rightarrow> pystr option \<Rightarrow> bool \<Rightarrow> world \<Rightarrow> unit result" where
  "enqueue_posts_for_docket_alert E fwe_pk webhook_event document_url check_sponsor_message w =
     (case subscription webhook_event of
        None \<Rightarrow> (Inr (), w)
      | Some sub \<Rightarrow>
          docket_alert_loop E fwe_pk document_url check_sponsor_message
            (get_channels_per_subscription E (sub_pk sub)) w)"

text \<open>
  The loop of \<open>enqueue_posts_for_new_case\<close>. The variable \<open>files\<close> is assigned inside the
  loop, so the thumbnails of one channel are those the previous channel left.
\<close>

fun new_case_loop ::
  "env \<Rightarrow> Subscription \<Rightarrow> DocumentDict option \<Rightarrow> bool \<Rightarrow> Channel list \<Rightarrow>
   thumbnails option \<Rightarrow> world \<Rightarrow> unit result" where
  "new_case_loop E sub initial_document check_sponsor_message [] files w = (Inr (), w)"
| "new_case_loop E sub initial_document check_sponsor_message (channel # rest) files w =
     (let message = new_case_message E sub channel initial_document in
      case group channel of
        None \<Rightarrow> (Inl AttributeError, w)
      | Some g \<Rightarrow>
          let files' =
                (case (sponsorships g, files) of
                   (sponsorship # _, Some f) \<Rightarrow>
                     if check_sponsor_message
                     then Some (Sponsored f (watermark_message sponsorship))
                     else files
                 | _ \<Rightarrow> files)
          in new_case_loop E sub initial_document check_sponsor_message rest files'
               (enqueue E (Add_status (channel_pk channel) message files') w))"

definition enqueue_posts_for_new_case ::
  "env \<Rightarrow> Subscription \<Rightarrow> pystr option \<Rightarrow> bool \<Rightarrow> DocumentDict option \<Rightarrow> world \<Rightarrow>
   unit result" where
  "enqueue_posts_for_new_case E sub document_url check_sponsor_message initial_document w =
     (let files =
            (case document_url of
               None \<Rightarrow> None
             | Some url \<Rightarrow> if url \<noteq> [] then Some (Thumbnails url ''[1,2,3,4]'') else None);
          initial_document' =
            (if truthy_int (cl_docket_id sub) \<and> initial_document = None
             then lookup_initial_complaint E (cl_docket_id sub)
             else initial_document)
      in new_case_loop E sub initial_document' check_sponsor_message
           (get_channels_per_subscription E (sub_pk sub)) files w)"

subsection \<open>Link\<close>

definition process_filing_webhook_event_body :: "nat \<Rightarrow> world \<Rightarrow> FilingWebhookEvent result" where
  "process_filing_webhook_event_body fwe_pk w =
     (case events (store w) fwe_pk of
        None \<Rightarrow> (Inl FilingWebhookEvent_DoesNotExist, w)
      | Some filing_webhook_event \<Rightarrow>
          if \<not> truthy_int (docket_id filing_webhook_event) then (Inr filing_webhook_event, w)
          else
            (case objects_get Subscription_DoesNotExist Subscription_MultipleObjectsReturned
                    (\<lambda>s. cl_docket_id s = docket_id filing_webhook_event)
                    (subscriptions (store w)) of
               Inl exn \<Rightarrow>
                 if exn = Subscription_DoesNotExist
                 then let e' = filing_webhook_event\<lparr>status := FAILED\<rparr>
                      in (Inr e', save fwe_pk e' w)
                 else (Inl exn, w)
             | Inr sub \<Rightarrow>
                 let e' = filing_webhook_event\<lparr>subscription := Some sub, status := SUCCESSFUL\<rparr>
                 in (Inr e', save fwe_pk e' w)))"

definition process_filing_webhook_event :: "nat \<Rightarrow> world \<Rightarrow> FilingWebhookEvent result" where
  "process_filing_webhook_event fwe_pk = atomic (process_filing_webhook_event_body fwe_pk)"

subsection \<open>Pre-post check\<close>

definition check_webhook_before_posting_body ::
  "env \<Rightarrow> nat \<Rightarrow> world \<Rightarrow> FilingWebhookEvent result" where
  "check_webhook_before_posting_body E fwe_pk w =
     (case events (store w) fwe_pk of
        None \<Rightarrow> (Inl FilingWebhookEvent_DoesNotExist, w)
      | Some filing_webhook_event \<Rightarrow>
          if status filing_webhook_event \<noteq> SUCCESSFUL then (Inr filing_webhook_event, w)
          else
            (case subscription filing_webhook_event of
               None \<Rightarrow> (Inl AssertionError, w)
             | Some sub \<Rightarrow>
                 if search DO_NOT_POST (description filing_webhook_event)
                 then let e' = filing_webhook_event\<lparr>status := IGNORED\<rparr>
                      in (Inr e', save_status fwe_pk e' w)
                 else
                   (case lookup_document_by_doc_id E (doc_id filing_webhook_event) of
                      None \<Rightarrow> (Inl TypeError, w)
                    | Some cl_document \<Rightarrow>
                        let post =
                              (\<lambda>document_url.
                                 case enqueue_posts_for_docket_alert E fwe_pk filing_webhook_event
                                        document_url False w of
                                   (Inl exn, w') \<Rightarrow> (Inl exn, w')
                                 | (Inr u, w') \<Rightarrow> (Inr filing_webhook_event, w'))
                        in
                        if truthy_text (filepath_local cl_document)
                        then post (filepath_local cl_document)
                        else if check_active_sponsorships E (sub_pk sub)
                                \<and> truthy_text (pacer_doc_id filing_webhook_event)
                                \<and> \<not> search (DO_NOT_PAY E) (description filing_webhook_event)
                        then
                          let w1 = purchase_pdf_by_doc_id (doc_id filing_webhook_event)
                                     (docket_id filing_webhook_event) w;
                              e' = filing_webhook_event\<lparr>status := WAITING_FOR_DOCUMENT\<rparr>
                          in (Inr e', save_status fwe_pk e' w1)
                        else post None)))"

definition check_webhook_before_posting ::
  "env \<Rightarrow> nat \<Rightarrow> world \<Rightarrow> FilingWebhookEvent result" where
  "check_webhook_before_posting E fwe_pk = atomic (check_webhook_before_posting_body E fwe_pk)"


subsection \<open>First post of a new case\<close>

definition check_initial_complaint_before_posting_body ::
  "env \<Rightarrow> nat \<Rightarrow> world \<Rightarrow> Subscription result" where
  "check_initial_complaint_before_posting_body E subscription_pk w =
     (case objects_get Subscription_DoesNotExist Subscription_MultipleObjectsReturned
             (\<lambda>s. sub_pk s = subscription_pk) (subscriptions (store w)) of
        Inl exn \<Rightarrow> (Inl exn, w)
      | Inr sub \<Rightarrow>
          let cl_document = lookup_initial_complaint E (cl_docket_id sub);
              post =
                (\<lambda>document_url.
                   case enqueue_posts_for_new_case E sub document_url False cl_document w of
                     (Inl exn, w') \<Rightarrow> (Inl exn, w')
                   | (Inr u, w') \<Rightarrow> (Inr sub, w'))
          in (case cl_document of
                None \<Rightarrow> post None
              | Some d \<Rightarrow>
                  if truthy_text (filepath_local d) then post (filepath_local d)
                  else if truthy_text (dd_pacer_doc_id d)
                          \<and> check_active_sponsorships E (sub_pk sub)
                  then (Inr sub, purchase_pdf_by_doc_id (dd_id d) (cl_docket_id sub) w)
                  else post None))"

definition check_initial_complaint_before_posting ::
  "env \<Rightarrow> nat \<Rightarrow> world \<Rightarrow> Subscription result" where
  "check_initial_complaint_before_posting E subscription_pk =
     atomic (check_initial_complaint_before_posting_body E subscription_pk)"

subsection \<open>Fetch completion\<close>

text \<open>
  \<open>process_fetch_webhook_event\<close> first chooses, by the record type, the subscription
  and the document, and for an event writes its status; what follows the lookup
  (from \<open>if not cl_document\<close> on) is common to both record types and is given first.
  There \<open>fwe\<close> is the event of a \<open>"filing_webhook"\<close> record, with its status already
  written, and \<open>None\<close> for a \<open>"subscription"\<close> record.
\<close>

definition process_fetch_webhook_event_tail ::
  "env \<Rightarrow> nat \<Rightarrow> FilingWebhookEvent option \<Rightarrow> Subscription \<Rightarrow> DocumentDict option \<Rightarrow>
   world \<Rightarrow> nat result" where
  "process_fetch_webhook_event_tail E record_pk fwe sub cl_document w1 =
     (case cl_document of
        None \<Rightarrow> (Inl AssertionError, w1)
      | Some d \<Rightarrow>
          if \<not> truthy_text (filepath_local d) then (Inl AssertionError, w1)
          else
            let pdf_path = filepath_local d;
                sponsor_groups = get_sponsored_groups_per_subscription E (sub_pk sub);
                document =
                  \<lparr>doc_description =
                     (case fwe of
                        None \<Rightarrow> Initial_Complaint_from (docket_name sub)
                      | Some e \<Rightarrow> Str_of_event e),
                   doc_page_count = page_count d,
                   doc_docket_number = docket_number sub,
                   doc_court_name = court_name sub,
                   doc_court_id = pacer_court_id sub\<rparr>;
                w2 = (if sponsor_groups \<noteq> []
                      then log_purchase sponsor_groups (sub_pk sub) document w1 else w1)
            in (case (case fwe of
                        Some e \<Rightarrow> enqueue_posts_for_docket_alert E record_pk e pdf_path True w2
                      | None \<Rightarrow> enqueue_posts_for_new_case E sub pdf_path True (Some d) w2) of
                  (Inl exn, w3) \<Rightarrow> (Inl exn, w3)
                | (Inr u, w3) \<Rightarrow> (Inr record_pk, w3)))"

definition process_fetch_webhook_event_body ::
  "env \<Rightarrow> nat \<Rightarrow> record_type \<Rightarrow> world \<Rightarrow> nat result" where
  "process_fetch_webhook_event_body E record_pk rt w =
     (if rt = filing_webhook then
        (case events (store w) record_pk of
           None \<Rightarrow> (Inl FilingWebhookEvent_DoesNotExist, w)
         | Some filing_webhook_event \<Rightarrow>
             (case subscription filing_webhook_event of
                None \<Rightarrow> (Inl AssertionError, w)
              | Some sub \<Rightarrow>
                  let e' = filing_webhook_event\<lparr>status := SUCCESSFUL\<rparr>;
                      w1 = save_status record_pk e' w;
                      cl_document = lookup_document_by_doc_id E (doc_id e')
                  in process_fetch_webhook_event_tail E record_pk (Some e') sub cl_document w1))
      else
        (case objects_get Subscription_DoesNotExist Subscription_MultipleObjectsReturned
                (\<lambda>s. sub_pk s = record_pk) (subscriptions (store w)) of
           Inl exn \<Rightarrow> (Inl exn, w)
         | Inr sub \<Rightarrow>
             process_fetch_webhook_event_tail E record_pk None sub
               (lookup_initial_complaint E (cl_docket_id sub)) w))"

definition process_fetch_webhook_event ::
  "env \<Rightarrow> nat \<Rightarrow> record_type \<Rightarrow> world \<Rightarrow> nat result" where
  "process_fetch_webhook_event E record_pk rt = atomic (process_fetch_webhook_event_body E record_pk rt)"

subsection \<open>Posting worker\<close>

definition make_post_for_webhook_event_body ::
  "env \<Rightarrow> nat \<Rightarrow> nat \<Rightarrow> pystr option \<Rightarrow> pystr option \<Rightarrow> world \<Rightarrow> Post result" where
  "make_post_for_webhook_event_body E ch_pk fwe_pk document_url sponsor_text w =
     (case objects_get Channel_DoesNotExist Channel_MultipleObjectsReturned
             (\<lambda>c. channel_pk c = ch_pk) (channels (store w)) of
        Inl exn \<Rightarrow> (Inl exn, w)
      | Inr channel \<Rightarrow>
          (case events (store w) fwe_pk of
             None \<Rightarrow> (Inl FilingWebhookEvent_DoesNotExist, w)
           | Some filing_webhook_event \<Rightarrow>
               (case subscription filing_webhook_event of
                  None \<Rightarrow> (Inl AssertionError, w)
                | Some sub \<Rightarrow>
                    let (message, image) = webhook_message E channel filing_webhook_event sub;
                        files =
                          (if truthy_text document_url
                           then Some (Thumbnails (the document_url)
                                        (if image then ''[1,2,3]'' else ''[1,2,3,4]''))
                           else None);
                        files' =
                          (case files of
                             None \<Rightarrow> None
                           | Some f \<Rightarrow>
                               if truthy_text sponsor_text then Some (Sponsored f (the sponsor_text))
                               else files);
                        api_post_id = add_status E channel message;
                        w1 = w\<lparr>published := published w @ [(ch_pk, message, files')]\<rparr>;
                        post = \<lparr>post_event = fwe_pk, post_channel = ch_pk,
                                object_id = api_post_id, post_text = message\<rparr>
                    in (Inr post, w1\<lparr>store := (store w1)\<lparr>posts := posts (store w1) @ [post]\<rparr>\<rparr>))))"

definition make_post_for_webhook_event ::
  "env \<Rightarrow> nat \<Rightarrow> nat \<Rightarrow> pystr option \<Rightarrow> pystr option \<Rightarrow> world \<Rightarrow> Post result" where
  "make_post_for_webhook_event E ch_pk fwe_pk document_url sponsor_text =
     atomic (make_post_for_webhook_event_body E ch_pk fwe_pk document_url sponsor_text)"

section \<open>The suppressed phrases, as the specification words them\<close>

text \<open>
  The specification lists six phrases. \<open>phrase_char\<close> says when a code point of a
  description stands for a character of a phrase: a blank of the phrase for any one
  whitespace code point, a letter for itself in either case (under the case mapping of
  \<open>re.IGNORECASE\<close>).
\<close>

definition suppressed_phrases :: "string list" where
  "suppressed_phrases =
     [''pro hac vice'', ''notice of appearance'', ''certificate of disclosure'',
      ''corporate disclosure'', ''add and terminate attorneys'', ''none'']"

definition phrase_char :: "char \<Rightarrow> nat \<Rightarrow> bool" where
  "phrase_char ch c \<longleftrightarrow>
     (if ch = CHR '' '' then is_space c else c \<in> set (ignorecase_variants (of_char ch)))"

text \<open>A description contains a phrase when some stretch of it stands for the phrase.\<close>

definition contains_phrase :: "string \<Rightarrow> pystr \<Rightarrow> bool" where
  "contains_phrase ph d \<longleftrightarrow>
     (\<exists>pre mid suf. d = pre @ mid @ suf \<and> list_all2 phrase_char ph mid)"

text \<open>
  The specification speaks of whole-word matches: the stretch must not continue a word
  before it or be continued by one after it (the \<open>\b\<close> of a regular expression, with
  the ASCII word characters). \<open>phrase_here\<close> gives what follows the phrase when the text
  starts with it; \<open>whole_phrase_search\<close> walks through the text and remembers whether the
  position is at the start of the text or after a character that is not a word character.
\<close>

definition word_char :: "nat \<Rightarrow> bool" where
  "word_char c \<longleftrightarrow>
     (48 \<le> c \<and> c \<le> 57) \<or> (65 \<le> c \<and> c \<le> 90) \<or> (97 \<le> c \<and> c \<le> 122) \<or> c = 95"

fun phrase_here :: "string \<Rightarrow> pystr \<Rightarrow> pystr option" where
  "phrase_here [] s = Some s"
| "phrase_here (ch # ph) [] = None"
| "phrase_here (ch # ph) (c # s) = (if phrase_char ch c then phrase_here ph s else None)"

definition whole_phrase_here :: "string \<Rightarrow> pystr \<Rightarrow> bool" where
  "whole_phrase_here ph s =
     (case phrase_here ph s of
        None \<Rightarrow> False
      | Some [] \<Rightarrow> True
      | Some (c # rest) \<Rightarrow> \<not> word_char c)"

fun whole_phrase_search :: "string list \<Rightarrow> bool \<Rightarrow> pystr \<Rightarrow> bool" where
  "whole_phrase_search phs at_boundary [] =
     (at_boundary \<and> list_ex (\<lambda>ph. whole_phrase_here ph []) phs)"
| "whole_phrase_search phs at_boundary (c # s) =
     ((at_boundary \<and> list_ex (\<lambda>ph. whole_phrase_here ph (c # s)) phs)
      \<or> whole_phrase_search phs (\<not> word_char c) s)"

text \<open>The atoms that the pattern of \<open>templates.py\<close> has for a phrase.\<close>

definition phrase_atoms :: "string \<Rightarrow> atom list" where
  "phrase_atoms ph = map (\<lambda>ch. if ch = CHR '' '' then Space else Lit (of_char ch)) ph"

section \<open>The ledger entry of a fetch completion\<close>

text \<open>
  Names for two values that \<open>process_fetch_webhook_event\<close> computes on its way: the
  document it hands to the ledger, and the world once \<open>log_purchase\<close> has run, which it
  does only when the subscription has a sponsor group.
\<close>

definition ledger_document ::
  "FilingWebhookEvent option \<Rightarrow> Subscription \<Rightarrow> DocumentDict \<Rightarrow> Document" where
  "ledger_document fwe sub d =
     \<lparr>doc_description =
        (case fwe of
           None \<Rightarrow> Initial_Complaint_from (docket_name sub)
         | Some e \<Rightarrow> Str_of_event e),
      doc_page_count = page_count d,
      doc_docket_number = docket_number sub,
      doc_court_name = court_name sub,
      doc_court_id = pacer_court_id sub\<rparr>"

definition logged ::
  "env \<Rightarrow> FilingWebhookEvent option \<Rightarrow> Subscription \<Rightarrow> DocumentDict \<Rightarrow> world \<Rightarrow> world" where
  "logged E fwe sub d w1 =
     (if get_sponsored_groups_per_subscription E (sub_pk sub) \<noteq> []
      then log_purchase (get_sponsored_groups_per_subscription E (sub_pk sub)) (sub_pk sub)
             (ledger_document fwe sub d) w1
      else w1)"

section \<open>Sequences of pipeline operations\<close>

text \<open>
  The tasks that the application starts (as jobs or from its views), and what a sequence of
  them makes of a world, whatever each of them returns or raises.
\<close>

datatype operation =
  Link nat
| Pre_post_check nat
| Initial_complaint_check nat
| Fetch_completion nat record_type
| Post_worker nat nat "pystr option" "pystr option"

fun run :: "env \<Rightarrow> operation \<Rightarrow> world \<Rightarrow> world" where
  "run E (Link k) w = snd (process_filing_webhook_event k w)"
| "run E (Pre_post_check k) w = snd (check_webhook_before_posting E k w)"
| "run E (Initial_complaint_check k) w = snd (check_initial_complaint_before_posting E k w)"
| "run E (Fetch_completion k rt) w = snd (process_fetch_webhook_event E k rt w)"
| "run E (Post_worker c k url txt) w = snd (make_post_for_webhook_event E c k url txt w)"

definition run_all :: "env \<Rightarrow> operation list \<Rightarrow> world \<Rightarrow> world" where
  "run_all E ops w = fold (run E) ops w"

text \<open>
  The state that Link leaves behind for an event whose docket id matches no Subscription.
\<close>

definition failed_unlinked :: "nat \<Rightarrow> FilingWebhookEvent \<Rightarrow> world \<Rightarrow> bool" where
  "failed_unlinked k e w \<longleftrightarrow>
     events (store w) k = Some e \<and> status e = FAILED \<and> subscription e = None \<and>
     truthy_int (docket_id e) \<and> docket_id e \<notin> set (map cl_docket_id (subscriptions (store w)))"

section \<open>Posting jobs of one event\<close>




section \<open>The jobs of a fan-out\<close>

text \<open>
  The sponsor message that the fan-out computes for a channel, and the jobs of a fan-out
  over a list of channels.
\<close>

definition sponsor_message_of :: "bool \<Rightarrow> Channel \<Rightarrow> pystr option" where
  "sponsor_message_of check_sponsor_message channel =
     (case group channel of
        None \<Rightarrow> None
      | Some g \<Rightarrow>
          if check_sponsor_message \<and> sponsorships g \<noteq> []
          then Some (watermark_message (hd (sponsorships g))) else None)"

definition posting_jobs ::
  "env \<Rightarrow> nat \<Rightarrow> pystr option \<Rightarrow> bool \<Rightarrow> Channel list \<Rightarrow> (job \<times> Retry) list" where
  "posting_jobs E fwe_pk document_url check_sponsor_message chs =
     map (\<lambda>c. (Make_post (channel_pk c) fwe_pk document_url
                  (sponsor_message_of check_sponsor_message c), retry_policy E)) chs"

section \<open>Example data\<close>

definition sub1 :: Subscription where
  "sub1 = \<lparr>sub_pk = 11, cl_docket_id = Some 42, docket_name = str ''Doe v. Roe'',
           docket_number = str ''1:23-cv-00042'', court_name = str ''D. Del.'',
           pacer_court_id = str ''ded''\<rparr>"

definition sub2 :: Subscription where
  "sub2 = \<lparr>sub_pk = 12, cl_docket_id = Some 43, docket_name = str ''In re Acme'',
           docket_number = str ''1:23-bk-00043'', court_name = str ''Bankr. D. Del.'',
           pacer_court_id = str ''deb''\<rparr>"

definition group1 :: Group where
  "group1 = \<lparr>group_pk = 31, sponsorships = [\<lparr>watermark_message = str ''Sponsored by X''\<rparr>]\<rparr>"

definition channel1 :: Channel where
  "channel1 = \<lparr>channel_pk = 21, service = 2, group = Some group1\<rparr>"

definition channel2 :: Channel where
  "channel2 = \<lparr>channel_pk = 22, service = 3, group = Some group1\<rparr>"

definition channel3 :: Channel where
  "channel3 = \<lparr>channel_pk = 23, service = 2, group = None\<rparr>"

definition document7 :: "pystr option \<Rightarrow> DocumentDict" where
  "document7 path = \<lparr>dd_id = Some 7, filepath_local = path, page_count = Some 12,
                      dd_pacer_doc_id = Some (str ''0123''), absolute_url = str ''/docket/42/7/''\<rparr>"

text \<open>
  An environment in which subscription 11 is posted to channels 21 and 22 and subscription
  12 to channels 21, 23 and 22; \<open>path\<close> is the local copy of document 7 and \<open>groups\<close>
  the sponsor groups of subscription 11, which has an active sponsorship.
\<close>

definition env1 :: "pystr option \<Rightarrow> nat list \<Rightarrow> env" where
  "env1 path groups =
     \<lparr>get_channels_per_subscription =
        (\<lambda>k. if k = 11 then [channel1, channel2]
             else if k = 12 then [channel1, channel3, channel2] else []),
      get_sponsored_groups_per_subscription = (\<lambda>k. if k = 11 then groups else []),
      check_active_sponsorships = (\<lambda>k. k = 11),
      lookup_document_by_doc_id = (\<lambda>d. if d = Some 7 then Some (document7 path) else None),
      lookup_initial_complaint = (\<lambda>d. None),
      DO_NOT_PAY = [lits ''sealed''],
      webhook_message = (\<lambda>c e s. (description e, False)),
      new_case_message = (\<lambda>s c d. docket_name s),
      add_status = (\<lambda>c m. m),
      RQ_MAX_NUMBER_OF_RETRIES = 3,
      RQ_POST_RETRY_INTERVALS = [10, 20, 30]\<rparr>"

definition event1 ::
  "int option \<Rightarrow> pystr option \<Rightarrow> string \<Rightarrow> fwe_status \<Rightarrow> Subscription option \<Rightarrow>
   FilingWebhookEvent" where
  "event1 d p descr st sub =
     \<lparr>docket_id = d, doc_id = Some 7, pacer_doc_id = p, description = str descr,
      status = st, subscription = sub\<rparr>"

text \<open>A world whose only event has primary key 5.\<close>

definition world1 :: "FilingWebhookEvent \<Rightarrow> world" where
  "world1 e =
     \<lparr>store = \<lparr>events = [5 \<mapsto> e], subscriptions = [sub1, sub2],
                channels = [channel1, channel2, channel3], ledger = [], posts = []\<rparr>,
      purchases = [], queue = [], published = []\<rparr>"

section \<open>What the tasks leave untouched\<close>

lemma store_enqueue: "store (enqueue E j w) = store w"
  by (simp add: enqueue_def)

lemma docket_alert_loop_store:
  "store (snd (docket_alert_loop E k url c chs w)) = store w"
  by (induction chs arbitrary: w) (auto simp: store_enqueue Let_def split: option.splits)

lemma enqueue_posts_for_docket_alert_store:
  "store (snd (enqueue_posts_for_docket_alert E k e url c w)) = store w"
  by (simp add: enqueue_posts_for_docket_alert_def docket_alert_loop_store split: option.splits)

lemma new_case_loop_store:
  "store (snd (new_case_loop E sub d c chs files w)) = store w"
  by (induction chs arbitrary: w files)
     (auto simp: store_enqueue Let_def split: option.splits list.splits)

lemma enqueue_posts_for_new_case_store:
  "store (snd (enqueue_posts_for_new_case E sub url c d w)) = store w"
  by (simp add: enqueue_posts_for_new_case_def new_case_loop_store Let_def)

lemma docket_alert_storeD:
  "enqueue_posts_for_docket_alert E k e url c w = (r, w') \<Longrightarrow> store w' = store w"
  using enqueue_posts_for_docket_alert_store[of E k e url c w] by simp

lemma new_case_storeD:
  "enqueue_posts_for_new_case E sub url c d w = (r, w') \<Longrightarrow> store w' = store w"
  using enqueue_posts_for_new_case_store[of E sub url c d w] by simp

lemma save_status_frame:
  "subscriptions (store (save_status j e' w)) = subscriptions (store w)"
  "k \<noteq> j \<Longrightarrow> events (store (save_status j e' w)) k = events (store w) k"
  by (auto simp: save_status_def split: option.splits)

lemma atomic_frame:
  assumes "atomic body w = (r, w')"
  obtains r0 w0 where "body w = (r0, w0)" "store w' = store w \<or> store w' = store w0"
  using assms by (auto simp: atomic_def split: prod.splits sum.splits)

lemma objects_get_none:
  "\<forall>x\<in>set rows. \<not> P x \<Longrightarrow> objects_get a b P rows = Inl a"
  by (simp add: objects_get_def)

section \<open>Link\<close>

lemma link_failed:
  assumes "events (store w) k = Some e" and "truthy_int (docket_id e)"
    and "docket_id e \<notin> set (map cl_docket_id (subscriptions (store w)))"
  shows "process_filing_webhook_event k w =
           (Inr (e\<lparr>status := FAILED\<rparr>), save k (e\<lparr>status := FAILED\<rparr>) w)"
proof -
  have "\<forall>s\<in>set (subscriptions (store w)). \<not> cl_docket_id s = docket_id e"
    using assms(3) by (metis image_eqI set_map)
  then have "objects_get Subscription_DoesNotExist Subscription_MultipleObjectsReturned
               (\<lambda>s. cl_docket_id s = docket_id e) (subscriptions (store w))
             = Inl Subscription_DoesNotExist"
    by (rule objects_get_none)
  then show ?thesis
    using assms(1,2)
    by (simp add: process_filing_webhook_event_def atomic_def
        process_filing_webhook_event_body_def Let_def)
qed

lemma link_keeps:
  assumes "failed_unlinked k e w"
  shows "failed_unlinked k e (snd (process_filing_webhook_event j w))"
proof (cases "j = k")
  case True
  have "e\<lparr>status := FAILED\<rparr> = e" using assms by (simp add: failed_unlinked_def)
  then show ?thesis using assms True link_failed[of w k e]
    by (simp add: failed_unlinked_def save_def)
next
  case False
  then show ?thesis using assms
    by (auto simp: failed_unlinked_def process_filing_webhook_event_def atomic_def
        process_filing_webhook_event_body_def save_def Let_def
        split: option.splits sum.splits)
qed

section \<open>FAILED and unlinked is kept by every task\<close>

lemma check_body_frame:
  assumes "check_webhook_before_posting_body E j w = (r, w')"
  shows "subscriptions (store w') = subscriptions (store w)"
    and "k \<noteq> j \<Longrightarrow> events (store w') k = events (store w) k"
  using assms
  by (auto simp: check_webhook_before_posting_body_def save_status_frame
      purchase_pdf_by_doc_id_def Let_def
      dest!: docket_alert_storeD
      split: option.splits sum.splits prod.splits if_splits)

lemma check_keeps:
  assumes "failed_unlinked k e w"
  shows "failed_unlinked k e (snd (check_webhook_before_posting E j w))"
proof (cases "j = k")
  case True
  then show ?thesis using assms
    by (simp add: failed_unlinked_def check_webhook_before_posting_def atomic_def
        check_webhook_before_posting_body_def)
next
  case False
  obtain r w' where rw: "check_webhook_before_posting E j w = (r, w')"
    by (cases "check_webhook_before_posting E j w")
  then obtain r0 w0 where b: "check_webhook_before_posting_body E j w = (r0, w0)"
     and st: "store w' = store w \<or> store w' = store w0"
    unfolding check_webhook_before_posting_def by (rule atomic_frame)
  show ?thesis using assms False rw st check_body_frame[OF b]
    by (auto simp: failed_unlinked_def)
qed

lemma tail_none:
  "process_fetch_webhook_event_tail E j fwe sub None w1 = (Inl AssertionError, w1)"
  by (simp add: process_fetch_webhook_event_tail_def)

lemma tail_no_path:
  "\<not> truthy_text (filepath_local d) \<Longrightarrow>
   process_fetch_webhook_event_tail E j fwe sub (Some d) w1 = (Inl AssertionError, w1)"
  by (simp add: process_fetch_webhook_event_tail_def)

lemma tail_event:
  "truthy_text (filepath_local d) \<Longrightarrow>
   process_fetch_webhook_event_tail E j (Some e) sub (Some d) w1 =
     (case enqueue_posts_for_docket_alert E j e (filepath_local d) True
             (logged E (Some e) sub d w1) of
        (Inl exn, w3) \<Rightarrow> (Inl exn, w3)
      | (Inr u, w3) \<Rightarrow> (Inr j, w3))"
  unfolding process_fetch_webhook_event_tail_def logged_def ledger_document_def Let_def
  by simp

lemma tail_subscription:
  "truthy_text (filepath_local d) \<Longrightarrow>
   process_fetch_webhook_event_tail E j None sub (Some d) w1 =
     (case enqueue_posts_for_new_case E sub (filepath_local d) True (Some d)
             (logged E None sub d w1) of
        (Inl exn, w3) \<Rightarrow> (Inl exn, w3)
      | (Inr u, w3) \<Rightarrow> (Inr j, w3))"
  unfolding process_fetch_webhook_event_tail_def logged_def ledger_document_def Let_def
  by simp

lemma logged_cases: "logged E fwe sub d w1 = w1 \<or> (\<exists>g n doc. logged E fwe sub d w1 = log_purchase g n doc w1)"
  by (auto simp: logged_def)

lemma fetch_tail_shape:
  assumes "process_fetch_webhook_event_tail E j fwe sub d w1 = (r, w')"
  shows "\<exists>w2. (w2 = w1 \<or> (\<exists>g n doc. w2 = log_purchase g n doc w1))
       \<and> (w' = w1
          \<or> (\<exists>e url r0. fwe = Some e \<and>
                enqueue_posts_for_docket_alert E j e url True w2 = (r0, w'))
          \<or> (\<exists>url d0 r0. fwe = None \<and>
                enqueue_posts_for_new_case E sub url True d0 w2 = (r0, w')))"
proof (cases d)
  case None
  then have "w' = w1" using assms by (simp add: tail_none)
  then show ?thesis by blast
next
  case (Some dd)
  show ?thesis
  proof (cases "truthy_text (filepath_local dd)")
    case False
    then have "w' = w1" using assms Some by (simp add: tail_no_path)
    then show ?thesis by blast
  next
    case True
    show ?thesis
    proof (cases fwe)
      case None
      then have "\<exists>r0. enqueue_posts_for_new_case E sub (filepath_local dd) True (Some dd)
                       (logged E None sub dd w1) = (r0, w')"
        using assms Some True by (auto simp: tail_subscription split: prod.splits sum.splits)
      then show ?thesis using logged_cases[of E None sub dd w1] None by metis
    next
      case (Some e)
      then have "\<exists>r0. enqueue_posts_for_docket_alert E j e (filepath_local dd) True
                       (logged E (Some e) sub dd w1) = (r0, w')"
        using assms \<open>d = Some dd\<close> True
        by (auto simp: tail_event split: prod.splits sum.splits)
      then show ?thesis using logged_cases[of E "Some e" sub dd w1] Some by metis
    qed
  qed
qed

lemma fetch_body_shape:
  assumes "process_fetch_webhook_event_body E j rt w = (r, w')"
  shows "w' = w
       \<or> (\<exists>e' fwe sub d. rt = filing_webhook \<and>
             process_fetch_webhook_event_tail E j fwe sub d (save_status j e' w) = (r, w'))
       \<or> (\<exists>sub d. rt \<noteq> filing_webhook \<and>
             process_fetch_webhook_event_tail E j None sub d w = (r, w'))"
  using assms
  by (auto simp: process_fetch_webhook_event_body_def Let_def
      split: option.splits sum.splits if_splits)

lemma fetch_tail_frame:
  assumes "process_fetch_webhook_event_tail E j fwe sub d w1 = (r, w')"
  shows "subscriptions (store w') = subscriptions (store w1) \<and>
         events (store w') = events (store w1)"
  using fetch_tail_shape[OF assms]
  by (auto simp: log_purchase_def dest!: docket_alert_storeD new_case_storeD)

lemma fetch_body_frame:
  assumes "process_fetch_webhook_event_body E j rt w = (r, w')"
  shows "subscriptions (store w') = subscriptions (store w)"
    and "k \<noteq> j \<Longrightarrow> events (store w') k = events (store w) k"
    and "rt \<noteq> filing_webhook \<Longrightarrow> events (store w') k = events (store w) k"
proof -
  consider "w' = w"
    | e' fwe sub d where "rt = filing_webhook"
        "process_fetch_webhook_event_tail E j fwe sub d (save_status j e' w) = (r, w')"
    | sub d where "rt \<noteq> filing_webhook"
        "process_fetch_webhook_event_tail E j None sub d w = (r, w')"
    using fetch_body_shape[OF assms] by blast
  then have "subscriptions (store w') = subscriptions (store w) \<and>
             (k \<noteq> j \<longrightarrow> events (store w') k = events (store w) k) \<and>
             (rt \<noteq> filing_webhook \<longrightarrow> events (store w') k = events (store w) k)"
  proof cases
    case 1
    then show ?thesis by simp
  next
    case 2
    then show ?thesis using fetch_tail_frame[OF 2(2)] by (simp add: save_status_frame)
  next
    case 3
    then show ?thesis using fetch_tail_frame[OF 3(2)] by simp
  qed
  then show "subscriptions (store w') = subscriptions (store w)"
    and "k \<noteq> j \<Longrightarrow> events (store w') k = events (store w) k"
    and "rt \<noteq> filing_webhook \<Longrightarrow> events (store w') k = events (store w) k"
    by simp_all
qed

lemma fetch_unlinked:
  assumes "events (store w) k = Some e" and "subscription e = None"
  shows "process_fetch_webhook_event E k filing_webhook w = (Inl AssertionError, w)"
  using assms
  by (simp add: process_fetch_webhook_event_def atomic_def process_fetch_webhook_event_body_def)

lemma fetch_keeps:
  assumes "failed_unlinked k e w"
  shows "failed_unlinked k e (snd (process_fetch_webhook_event E j rt w))"
proof (cases "j = k \<and> rt = filing_webhook")
  case True
  then show ?thesis using assms fetch_unlinked[of w k e E]
    by (simp add: failed_unlinked_def)
next
  case False
  obtain r w' where rw: "process_fetch_webhook_event E j rt w = (r, w')"
    by (cases "process_fetch_webhook_event E j rt w")
  then obtain r0 w0 where b: "process_fetch_webhook_event_body E j rt w = (r0, w0)"
     and st: "store w' = store w \<or> store w' = store w0"
    unfolding process_fetch_webhook_event_def by (rule atomic_frame)
  show ?thesis using assms False rw st fetch_body_frame[OF b]
    by (auto simp: failed_unlinked_def)
qed

lemma make_post_body_frame:
  assumes "make_post_for_webhook_event_body E c j url txt w = (r, w')"
  shows "subscriptions (store w') = subscriptions (store w)"
    and "events (store w') = events (store w)"
  using assms
  by (auto simp: make_post_for_webhook_event_body_def Let_def
      split: option.splits sum.splits prod.splits if_splits)

lemma make_post_keeps:
  assumes "failed_unlinked k e w"
  shows "failed_unlinked k e (snd (make_post_for_webhook_event E c j url txt w))"
proof -
  obtain r w' where rw: "make_post_for_webhook_event E c j url txt w = (r, w')"
    by (cases "make_post_for_webhook_event E c j url txt w")
  then obtain r0 w0 where b: "make_post_for_webhook_event_body E c j url txt w = (r0, w0)"
     and st: "store w' = store w \<or> store w' = store w0"
    unfolding make_post_for_webhook_event_def by (rule atomic_frame)
  show ?thesis using assms rw st make_post_body_frame[OF b]
    by (auto simp: failed_unlinked_def)
qed

lemma initial_complaint_body_frame:
  assumes "check_initial_complaint_before_posting_body E j w = (r, w')"
  shows "store w' = store w"
  using assms
  by (auto simp: check_initial_complaint_before_posting_body_def purchase_pdf_by_doc_id_def
      Let_def
      dest!: new_case_storeD
      split: option.splits sum.splits prod.splits if_splits)

lemma initial_complaint_keeps:
  assumes "failed_unlinked k e w"
  shows "failed_unlinked k e (snd (check_initial_complaint_before_posting E j w))"
proof -
  obtain r w' where rw: "check_initial_complaint_before_posting E j w = (r, w')"
    by (cases "check_initial_complaint_before_posting E j w")
  then obtain r0 w0 where b: "check_initial_complaint_before_posting_body E j w = (r0, w0)"
     and st: "store w' = store w \<or> store w' = store w0"
    unfolding check_initial_complaint_before_posting_def by (rule atomic_frame)
  show ?thesis using assms rw st initial_complaint_body_frame[OF b]
    by (auto simp: failed_unlinked_def)
qed

lemma run_keeps: "failed_unlinked k e w \<Longrightarrow> failed_unlinked k e (run E op w)"
  by (cases op)
     (simp_all add: link_keeps check_keeps fetch_keeps make_post_keeps initial_complaint_keeps)

lemma run_all_keeps: "failed_unlinked k e w \<Longrightarrow> failed_unlinked k e (run_all E ops w)"
  unfolding run_all_def by (induction ops arbitrary: w) (simp_all add: run_keeps)

section \<open>The pre-post check and the queue\<close>

lemma check_ignored:
  assumes "events (store w) k = Some e" "status e = SUCCESSFUL" "subscription e = Some sub"
    "search DO_NOT_POST (description e)"
  shows "check_webhook_before_posting E k w = (Inr (e\<lparr>status := IGNORED\<rparr>), save k (e\<lparr>status := IGNORED\<rparr>) w)"
  using assms
  by (simp add: check_webhook_before_posting_def atomic_def check_webhook_before_posting_body_def
      save_status_def save_def Let_def)

lemma check_not_successful:
  assumes "events (store w) k = Some e" "status e \<noteq> SUCCESSFUL"
  shows "check_webhook_before_posting E k w = (Inr e, w)"
  using assms
  by (simp add: check_webhook_before_posting_def atomic_def check_webhook_before_posting_body_def)































section \<open>The example data\<close>

lemma str_not_empty: "str (c # cs) \<noteq> []"
  by (simp add: str_def)

lemma env1_simps:
  "get_channels_per_subscription (env1 p g) 11 = [channel1, channel2]"
  "get_channels_per_subscription (env1 p g) 12 = [channel1, channel3, channel2]"
  "check_active_sponsorships (env1 p g) 11"
  "lookup_document_by_doc_id (env1 p g) (Some 7) = Some (document7 p)"
  "DO_NOT_PAY (env1 p g) = [lits ''sealed'']"
  "get_sponsored_groups_per_subscription (env1 p g) 11 = g"
  "RQ_MAX_NUMBER_OF_RETRIES (env1 p g) = 3"
  "RQ_POST_RETRY_INTERVALS (env1 p g) = [10, 20, 30]"
  by (simp_all add: env1_def)

lemma order_not_suppressed:
  "\<not> search DO_NOT_POST (str ''Order on motion'')"
  "\<not> search [lits ''sealed''] (str ''Order on motion'')"
  by (simp_all add: DO_NOT_POST_def str_def lits_def ignorecase_variants_def is_space_def)

section \<open>The purchase gate and the unlinked event\<close>

lemma purchases_enqueue: "purchases (enqueue E j w) = purchases w"
  by (simp add: enqueue_def)

lemma docket_alert_loop_purchases:
  "purchases (snd (docket_alert_loop E k url c chs w)) = purchases w"
  by (induction chs arbitrary: w) (auto simp: purchases_enqueue Let_def split: option.splits)

lemma docket_alert_purchases:
  "purchases (snd (enqueue_posts_for_docket_alert E k e url c w)) = purchases w"
  by (simp add: enqueue_posts_for_docket_alert_def docket_alert_loop_purchases
      split: option.splits)

lemma atomic_purchases: "purchases (snd (atomic body w)) = purchases (snd (body w))"
  by (auto simp: atomic_def split: prod.splits sum.splits)

lemma check_purchase:
  assumes "events (store w) k = Some e" and "status e = SUCCESSFUL"
    and "subscription e = Some sub" and "\<not> search DO_NOT_POST (description e)"
    and "lookup_document_by_doc_id E (doc_id e) = Some d"
    and "\<not> truthy_text (filepath_local d)" and "check_active_sponsorships E (sub_pk sub)"
    and "truthy_text (pacer_doc_id e)" and "\<not> search (DO_NOT_PAY E) (description e)"
  shows "check_webhook_before_posting E k w =
           (Inr (e\<lparr>status := WAITING_FOR_DOCUMENT\<rparr>),
            save k (e\<lparr>status := WAITING_FOR_DOCUMENT\<rparr>)
              (purchase_pdf_by_doc_id (doc_id e) (docket_id e) w))"
  using assms
  by (simp add: check_webhook_before_posting_def atomic_def check_webhook_before_posting_body_def
      save_status_def save_def purchase_pdf_by_doc_id_def Let_def)

lemma check_dispatch:
  assumes "events (store w) k = Some e" and "status e = SUCCESSFUL"
    and "subscription e = Some sub" and "\<not> search DO_NOT_POST (description e)"
    and "lookup_document_by_doc_id E (doc_id e) = Some d"
    and "truthy_text (filepath_local d) \<or> \<not> check_active_sponsorships E (sub_pk sub)
         \<or> \<not> truthy_text (pacer_doc_id e) \<or> search (DO_NOT_PAY E) (description e)"
  shows "check_webhook_before_posting_body E k w =
           (case enqueue_posts_for_docket_alert E k e
                   (if truthy_text (filepath_local d) then filepath_local d else None) False w of
              (Inl exn, w') \<Rightarrow> (Inl exn, w')
            | (Inr u, w') \<Rightarrow> (Inr e, w'))"
  using assms
  by (auto simp add: check_webhook_before_posting_body_def Let_def)

lemma make_post_unlinked:
  assumes "objects_get Channel_DoesNotExist Channel_MultipleObjectsReturned
             (\<lambda>c. channel_pk c = c_pk) (channels (store w)) = Inr ch"
    and "events (store w) k = Some e" and "subscription e = None"
  shows "make_post_for_webhook_event E c_pk k url spons w = (Inl AssertionError, w)"
  using assms
  by (simp add: make_post_for_webhook_event_def atomic_def make_post_for_webhook_event_body_def)

lemma check_unlinked:
  assumes "events (store w) k = Some e" and "subscription e = None" and "status e = SUCCESSFUL"
  shows "check_webhook_before_posting E k w = (Inl AssertionError, w)"
  using assms
  by (simp add: check_webhook_before_posting_def atomic_def check_webhook_before_posting_body_def)

section \<open>Fan-out, replayed links and fetch completion\<close>



lemma posting_jobs_channels:
  "map (\<lambda>(j, r). case j of Make_post c k u s \<Rightarrow> c | Add_status c m f \<Rightarrow> c)
       (posting_jobs E k url flag chs) = map channel_pk chs"
  by (simp add: posting_jobs_def comp_def)

lemma objects_get_cases:
  "objects_get a b P rows = Inl a \<or> objects_get a b P rows = Inl b \<or>
   (\<exists>x. objects_get a b P rows = Inr x)"
  by (auto simp: objects_get_def split: list.splits)

lemma save_twice: "save k e (save k e w) = save k e w"
  by (simp add: save_def)

lemma link_found:
  assumes "events (store w) k = Some e" and "truthy_int (docket_id e)"
    and "objects_get Subscription_DoesNotExist Subscription_MultipleObjectsReturned
           (\<lambda>s. cl_docket_id s = docket_id e) (subscriptions (store w)) = Inr s"
  shows "process_filing_webhook_event k w =
           (Inr (e\<lparr>subscription := Some s, status := SUCCESSFUL\<rparr>),
            save k (e\<lparr>subscription := Some s, status := SUCCESSFUL\<rparr>) w)"
  using assms
  by (simp add: process_filing_webhook_event_def atomic_def
      process_filing_webhook_event_body_def Let_def)

lemma link_not_found:
  assumes "events (store w) k = Some e" and "truthy_int (docket_id e)"
    and "objects_get Subscription_DoesNotExist Subscription_MultipleObjectsReturned
           (\<lambda>s. cl_docket_id s = docket_id e) (subscriptions (store w)) = Inl Subscription_DoesNotExist"
  shows "process_filing_webhook_event k w =
           (Inr (e\<lparr>status := FAILED\<rparr>), save k (e\<lparr>status := FAILED\<rparr>) w)"
  using assms
  by (simp add: process_filing_webhook_event_def atomic_def
      process_filing_webhook_event_body_def Let_def)

lemma link_multiple:
  assumes "events (store w) k = Some e" and "truthy_int (docket_id e)"
    and "objects_get Subscription_DoesNotExist Subscription_MultipleObjectsReturned
           (\<lambda>s. cl_docket_id s = docket_id e) (subscriptions (store w)) = Inl Subscription_MultipleObjectsReturned"
  shows "process_filing_webhook_event k w = (Inl Subscription_MultipleObjectsReturned, w)"
  using assms
  by (simp add: process_filing_webhook_event_def atomic_def
      process_filing_webhook_event_body_def Let_def)

lemma link_missing:
  assumes "events (store w) k = None"
  shows "process_filing_webhook_event k w = (Inl FilingWebhookEvent_DoesNotExist, w)"
  using assms
  by (simp add: process_filing_webhook_event_def atomic_def
      process_filing_webhook_event_body_def Let_def)

lemma link_no_docket:
  assumes "events (store w) k = Some e" and "\<not> truthy_int (docket_id e)"
  shows "process_filing_webhook_event k w = (Inr e, w)"
  using assms
  by (simp add: process_filing_webhook_event_def atomic_def
      process_filing_webhook_event_body_def)

lemma link_idem:
  "process_filing_webhook_event k (snd (process_filing_webhook_event k w))
     = process_filing_webhook_event k w"
proof (cases "events (store w) k")
  case None
  then show ?thesis by (simp add: link_missing)
next
  case (Some e)
  show ?thesis
  proof (cases "truthy_int (docket_id e)")
    case False
    then show ?thesis using Some by (simp add: link_no_docket)
  next
    case True
    let ?get = "\<lambda>w e. objects_get Subscription_DoesNotExist Subscription_MultipleObjectsReturned
           (\<lambda>s. cl_docket_id s = docket_id e) (subscriptions (store w))"
    consider "?get w e = Inl Subscription_DoesNotExist"
      | "?get w e = Inl Subscription_MultipleObjectsReturned"
      | s where "?get w e = Inr s"
      using objects_get_cases by blast
    then show ?thesis
    proof cases
      case 1
      let ?e = "e\<lparr>status := FAILED\<rparr>"
      have a: "process_filing_webhook_event k w = (Inr ?e, save k ?e w)"
        using Some True 1 by (rule link_not_found)
      have "process_filing_webhook_event k (save k ?e w) = (Inr (?e\<lparr>status := FAILED\<rparr>), save k (?e\<lparr>status := FAILED\<rparr>) (save k ?e w))"
        using True 1 by (intro link_not_found) (simp_all add: save_def)
      then show ?thesis using a by (simp add: save_twice)
    next
      case 2
      then show ?thesis using Some True by (simp add: link_multiple)
    next
      case 3
      let ?e = "e\<lparr>subscription := Some s, status := SUCCESSFUL\<rparr>"
      have a: "process_filing_webhook_event k w = (Inr ?e, save k ?e w)"
        using Some True 3 by (rule link_found)
      have "process_filing_webhook_event k (save k ?e w) = (Inr (?e\<lparr>subscription := Some s, status := SUCCESSFUL\<rparr>), save k (?e\<lparr>subscription := Some s, status := SUCCESSFUL\<rparr>) (save k ?e w))"
        using True 3 by (intro link_found) (simp_all add: save_def)
      then show ?thesis using a by (simp add: save_twice)
    qed
  qed
qed

lemma notice_suppressed: "search DO_NOT_POST (str ''Notice of Appearance filed'')"
  by (simp add: DO_NOT_POST_def str_def lits_def ignorecase_variants_def is_space_def)





section \<open>What a search of the pattern finds\<close>

lemma DO_NOT_POST_phrases: "DO_NOT_POST = map phrase_atoms suppressed_phrases"
  by (simp add: DO_NOT_POST_def suppressed_phrases_def phrase_atoms_def lits_def)

lemma match_here_iff:
  "match_here as s \<longleftrightarrow> (\<exists>mid suf. s = mid @ suf \<and> list_all2 atom_matches as mid)"
proof (induction as s rule: match_here.induct)
  case (1 s)
  then show ?case by simp
next
  case (2 a as)
  then show ?case by simp
next
  case (3 a as c s)
  show ?case
  proof
    assume "match_here (a # as) (c # s)"
    then obtain mid suf where "atom_matches a c" "s = mid @ suf" "list_all2 atom_matches as mid"
      using 3 by auto
    then have "c # s = (c # mid) @ suf \<and> list_all2 atom_matches (a # as) (c # mid)" by simp
    then show "\<exists>mid suf. c # s = mid @ suf \<and> list_all2 atom_matches (a # as) mid" by blast
  next
    assume "\<exists>mid suf. c # s = mid @ suf \<and> list_all2 atom_matches (a # as) mid"
    then obtain mid suf where m: "c # s = mid @ suf" "list_all2 atom_matches (a # as) mid" by blast
    then obtain c' mid' where "mid = c' # mid'" "atom_matches a c'" "list_all2 atom_matches as mid'"
      by (auto simp: list_all2_Cons1)
    then show "match_here (a # as) (c # s)" using m 3 by auto
  qed
qed

lemma search_iff:
  "search r d \<longleftrightarrow>
     (\<exists>a\<in>set r. \<exists>pre mid suf. d = pre @ mid @ suf \<and> list_all2 atom_matches a mid)"
proof (induction d)
  case Nil
  then show ?case by (auto simp: list_ex_iff match_here_iff)
next
  case (Cons c s)
  show ?case
  proof
    assume "search r (c # s)"
    then consider "list_ex (\<lambda>a. match_here a (c # s)) r" | "search r s" by auto
    then show "\<exists>a\<in>set r. \<exists>pre mid suf. c # s = pre @ mid @ suf \<and> list_all2 atom_matches a mid"
    proof cases
      case 1
      then obtain a mid suf where "a \<in> set r" "c # s = mid @ suf" "list_all2 atom_matches a mid"
        by (auto simp: list_ex_iff match_here_iff)
      then have "c # s = [] @ mid @ suf \<and> list_all2 atom_matches a mid" by simp
      then show ?thesis using \<open>a \<in> set r\<close> by blast
    next
      case 2
      then obtain a pre mid suf where "a \<in> set r" "s = pre @ mid @ suf" "list_all2 atom_matches a mid"
        using Cons by blast
      then have "c # s = (c # pre) @ mid @ suf \<and> list_all2 atom_matches a mid" by simp
      then show ?thesis using \<open>a \<in> set r\<close> by blast
    qed
  next
    assume "\<exists>a\<in>set r. \<exists>pre mid suf. c # s = pre @ mid @ suf \<and> list_all2 atom_matches a mid"
    then obtain a pre mid suf where
      a: "a \<in> set r" "c # s = pre @ mid @ suf" "list_all2 atom_matches a mid" by blast
    show "search r (c # s)"
    proof (cases pre)
      case Nil
      then have "match_here a (c # s)" using a by (auto simp: match_here_iff)
      then show ?thesis using a(1) by (auto simp: list_ex_iff)
    next
      case (Cons c' pre')
      then have "s = pre' @ mid @ suf" using a(2) by simp
      then have "search r s" using a Cons.IH by blast
      then show ?thesis by simp
    qed
  qed
qed

lemma atoms_match_phrase:
  assumes "\<forall>ch\<in>set ph. ch = CHR '' '' \<or> (97 \<le> (of_char ch :: nat) \<and> (of_char ch :: nat) \<le> 122)"
  shows "list_all2 atom_matches (phrase_atoms ph) mid \<longleftrightarrow> list_all2 phrase_char ph mid"
  using assms
proof (induction ph arbitrary: mid)
  case Nil
  then show ?case by (simp add: phrase_atoms_def)
next
  case (Cons ch ph)
  have IH: "\<And>mid. list_all2 atom_matches (phrase_atoms ph) mid \<longleftrightarrow> list_all2 phrase_char ph mid"
    using Cons by simp
  have hd: "\<And>c. atom_matches (if ch = CHR '' '' then Space else Lit (of_char ch)) c
                \<longleftrightarrow> phrase_char ch c"
    using Cons.prems by (auto simp: phrase_char_def)
  show ?case
    by (cases mid) (simp_all add: phrase_atoms_def hd IH[unfolded phrase_atoms_def])
qed

lemma suppressed_phrases_letters:
  "\<forall>ph\<in>set suppressed_phrases. \<forall>ch\<in>set ph.
      ch = CHR '' '' \<or> (97 \<le> (of_char ch :: nat) \<and> (of_char ch :: nat) \<le> 122)"
  by (simp add: suppressed_phrases_def)

lemma nonetheless_suppressed: "search DO_NOT_POST (str ''Order nonetheless granted'')"
  by (simp add: DO_NOT_POST_def str_def lits_def ignorecase_variants_def is_space_def)

section \<open>Claims about Link\<close>

text \<open>
  Claim C1, as amended. For every event that is not yet linked, whose external docket id
  is not empty and matches no Subscription, Link (\<open>process_filing_webhook_event\<close>) returns
  the event with status \<open>FAILED\<close> and no subscription and stores it so; and after any
  sequence of pipeline tasks, on any events and with any arguments, the stored event is
  still the same: its status is \<open>FAILED\<close> and its subscription is unset. (The tasks never
  write to the Subscription table, so the docket id keeps matching nothing.)
\<close>

theorem unmatched_event_fails_and_stays_failed:
  assumes "events (store w) k = Some e" and "truthy_int (docket_id e)"
    and "subscription e = None"
    and "docket_id e \<notin> set (map cl_docket_id (subscriptions (store w)))"
  shows "\<exists>e' w'. process_filing_webhook_event k w = (Inr e', w') \<and>
            events (store w') k = Some e' \<and> status e' = FAILED \<and> subscription e' = None \<and>
            (\<forall>ops. events (store (run_all E ops w')) k = Some e')"
proof -
  let ?e = "e\<lparr>status := FAILED\<rparr>"
  let ?w = "save k ?e w"
  have l: "process_filing_webhook_event k w = (Inr ?e, ?w)"
    using assms(1,2,4) by (rule link_failed)
  have "failed_unlinked k ?e ?w"
    using assms by (simp add: failed_unlinked_def save_def)
  then have "\<forall>ops. failed_unlinked k ?e (run_all E ops ?w)"
    by (simp add: run_all_keeps)
  then show ?thesis using l assms(3)
    by (simp add: failed_unlinked_def save_def)
qed

text \<open>
  The end-to-end scenario of the specification: an event with the unmatched docket id 99999.
\<close>

theorem unmatched_event_fails_and_stays_failed_witness:
  "\<exists>e' w'. process_filing_webhook_event 5
              (world1 (event1 (Some 99999) None ''Order'' RECEIVED None)) = (Inr e', w') \<and>
          events (store w') 5 = Some e' \<and> status e' = FAILED \<and> subscription e' = None \<and>
          (\<forall>ops. events (store (run_all (env1 None []) ops w')) 5 = Some e')"
  using unmatched_event_fails_and_stays_failed
          [of "world1 (event1 (Some 99999) None ''Order'' RECEIVED None)" 5
              "event1 (Some 99999) None ''Order'' RECEIVED None" "env1 None []"]
  by (simp add: world1_def event1_def sub1_def sub2_def)

text \<open>
  Claim C1 as stated fails for an event without a docket id: that id matches no
  Subscription, and Link leaves the status as it was.
\<close>

theorem link_without_docket_id_not_failed:
  "docket_id (event1 None None ''Order'' RECEIVED None)
     \<notin> set (map cl_docket_id (subscriptions (store (world1 (event1 None None ''Order'' RECEIVED None)))))
   \<and> process_filing_webhook_event 5 (world1 (event1 None None ''Order'' RECEIVED None))
     = (Inr (event1 None None ''Order'' RECEIVED None),
        world1 (event1 None None ''Order'' RECEIVED None))
   \<and> status (event1 None None ''Order'' RECEIVED None) = RECEIVED"
  by (simp add: process_filing_webhook_event_def atomic_def
      process_filing_webhook_event_body_def world1_def event1_def sub1_def sub2_def)

text \<open>
  Claim C10. For every event whose external docket id is null or empty (\<open>None\<close> or 0, the
  values for which \<open>not docket_id\<close> holds), Link returns the event as it is and leaves the
  whole world as it is: no status is written and no subscription is set. The result does
  not depend on the Subscription table, not even where \<open>Subscription.objects.get\<close> would
  raise.
\<close>

theorem link_without_docket_id_changes_nothing:
  assumes "events (store w) k = Some e" and "docket_id e = None \<or> docket_id e = Some 0"
  shows "process_filing_webhook_event k w = (Inr e, w)"
proof -
  have "\<not> truthy_int (docket_id e)" using assms(2) by auto
  then show ?thesis
    using assms(1)
    by (simp add: process_filing_webhook_event_def atomic_def
        process_filing_webhook_event_body_def)
qed

theorem link_without_docket_id_changes_nothing_witness:
  "process_filing_webhook_event 5 (world1 (event1 (Some 0) None ''Order'' RECEIVED None))
   = (Inr (event1 (Some 0) None ''Order'' RECEIVED None),
      world1 (event1 (Some 0) None ''Order'' RECEIVED None))"
  using link_without_docket_id_changes_nothing
          [of "world1 (event1 (Some 0) None ''Order'' RECEIVED None)" 5
              "event1 (Some 0) None ''Order'' RECEIVED None"]
  by (simp add: world1_def event1_def)

section \<open>Claims about the pre-post check\<close>




text \<open>
  Claim C3, as amended. Take an event that reaches the purchase gate of the pre-post check:
  status \<open>SUCCESSFUL\<close>, linked, description not matching \<open>DO_NOT_POST\<close>, and a
  document lookup that answers. If the document has no local copy, the subscription has an
  active sponsorship, the event has a non-empty PACER document id and its description does
  not match \<open>DO_NOT_PAY\<close>, then the event is stored with status
  \<open>WAITING_FOR_DOCUMENT\<close>, exactly one purchase request is added, for the event's
  document id and docket id, and nothing is put on the queue. If the document has a local
  copy, no purchase request is added.
\<close>

theorem purchase_gate:
  assumes "events (store w) k = Some e" and "status e = SUCCESSFUL"
    and "subscription e = Some sub" and "\<not> search DO_NOT_POST (description e)"
    and "lookup_document_by_doc_id E (doc_id e) = Some d"
  shows "(\<not> truthy_text (filepath_local d) \<and> check_active_sponsorships E (sub_pk sub) \<and>
          truthy_text (pacer_doc_id e) \<and> \<not> search (DO_NOT_PAY E) (description e) \<longrightarrow>
            (\<exists>e' w'. check_webhook_before_posting E k w = (Inr e', w') \<and>
               events (store w') k = Some e' \<and> status e' = WAITING_FOR_DOCUMENT \<and>
               purchases w' = purchases w @ [(doc_id e, docket_id e)] \<and>
               queue w' = queue w))
       \<and> (truthy_text (filepath_local d) \<longrightarrow>
            purchases (snd (check_webhook_before_posting E k w)) = purchases w)"
proof (intro conjI impI)
  assume a: "\<not> truthy_text (filepath_local d) \<and> check_active_sponsorships E (sub_pk sub) \<and>
          truthy_text (pacer_doc_id e) \<and> \<not> search (DO_NOT_PAY E) (description e)"
  have "check_webhook_before_posting E k w =
           (Inr (e\<lparr>status := WAITING_FOR_DOCUMENT\<rparr>),
            save k (e\<lparr>status := WAITING_FOR_DOCUMENT\<rparr>)
              (purchase_pdf_by_doc_id (doc_id e) (docket_id e) w))"
    using assms a by (intro check_purchase) auto
  then show "\<exists>e' w'. check_webhook_before_posting E k w = (Inr e', w') \<and>
               events (store w') k = Some e' \<and> status e' = WAITING_FOR_DOCUMENT \<and>
               purchases w' = purchases w @ [(doc_id e, docket_id e)] \<and>
               queue w' = queue w"
    by (simp add: save_def purchase_pdf_by_doc_id_def)
next
  assume a: "truthy_text (filepath_local d)"
  have "check_webhook_before_posting_body E k w =
           (case enqueue_posts_for_docket_alert E k e
                   (if truthy_text (filepath_local d) then filepath_local d else None) False w of
              (Inl exn, w') \<Rightarrow> (Inl exn, w')
            | (Inr u, w') \<Rightarrow> (Inr e, w'))"
    using assms a by (intro check_dispatch) auto
  then have "purchases (snd (check_webhook_before_posting_body E k w)) = purchases w"
    using docket_alert_purchases[of E k e "filepath_local d" False w] a
    by (auto split: prod.splits sum.splits)
  then show "purchases (snd (check_webhook_before_posting E k w)) = purchases w"
    by (simp add: check_webhook_before_posting_def atomic_purchases)
qed

theorem purchase_gate_witness:
  "(\<exists>e' w'. check_webhook_before_posting (env1 None [31]) 5
       (world1 (event1 (Some 42) (Some (str ''0123'')) ''Order on motion'' SUCCESSFUL (Some sub1)))
         = (Inr e', w') \<and>
       events (store w') 5 = Some e' \<and> status e' = WAITING_FOR_DOCUMENT \<and>
       purchases w' = [(Some 7, Some 42)] \<and> queue w' = [])
   \<and> purchases (snd (check_webhook_before_posting (env1 (Some (str ''/recap/7.pdf'')) [31]) 5
       (world1 (event1 (Some 42) (Some (str ''0123'')) ''Order on motion'' SUCCESSFUL (Some sub1)))))
      = []"
  using purchase_gate [of "world1 (event1 (Some 42) (Some (str ''0123'')) ''Order on motion'' SUCCESSFUL (Some sub1))"
              5 "event1 (Some 42) (Some (str ''0123'')) ''Order on motion'' SUCCESSFUL (Some sub1)"
              sub1 "env1 None [31]" "document7 None"]
        purchase_gate [of "world1 (event1 (Some 42) (Some (str ''0123'')) ''Order on motion'' SUCCESSFUL (Some sub1))"
              5 "event1 (Some 42) (Some (str ''0123'')) ''Order on motion'' SUCCESSFUL (Some sub1)"
              sub1 "env1 (Some (str ''/recap/7.pdf'')) [31]" "document7 (Some (str ''/recap/7.pdf''))"]
        order_not_suppressed
  by (simp add: world1_def event1_def env1_simps document7_def sub1_def str_not_empty)

text \<open>
  Claim C3 as stated fails for an event without a PACER document id: the document has no
  local copy, the sponsorship is active and the description is not purchase-suppressed, yet
  the event keeps its status, no purchase is requested and the event is dispatched, without
  a document, to both channels.
\<close>

theorem no_purchase_without_pacer_doc_id:
  "filepath_local (document7 None) = None
   \<and> lookup_document_by_doc_id (env1 None [31]) (Some 7) = Some (document7 None)
   \<and> check_active_sponsorships (env1 None [31]) (sub_pk sub1)
   \<and> \<not> search (DO_NOT_PAY (env1 None [31])) (str ''Order on motion'')
   \<and> fst (check_webhook_before_posting (env1 None [31]) 5
        (world1 (event1 (Some 42) None ''Order on motion'' SUCCESSFUL (Some sub1))))
      = Inr (event1 (Some 42) None ''Order on motion'' SUCCESSFUL (Some sub1))
   \<and> purchases (snd (check_webhook_before_posting (env1 None [31]) 5
        (world1 (event1 (Some 42) None ''Order on motion'' SUCCESSFUL (Some sub1))))) = []
   \<and> map fst (queue (snd (check_webhook_before_posting (env1 None [31]) 5
        (world1 (event1 (Some 42) None ''Order on motion'' SUCCESSFUL (Some sub1))))))
      = [Make_post 21 5 None None, Make_post 22 5 None None]"
  using order_not_suppressed
  by (simp add: check_webhook_before_posting_def atomic_def check_webhook_before_posting_body_def
      enqueue_posts_for_docket_alert_def enqueue_def Let_def
      world1_def event1_def env1_simps document7_def sub1_def channel1_def channel2_def group1_def)

section \<open>Idempotency of Link\<close>

text \<open>
  Claim C4, as amended. Applying Link twice in a row to the same event id gives the same
  result and the same world as applying it once. Link never looks at the subscription or
  the status that the event already has: whenever the event has a docket id and the lookup
  finds the Subscription, the event is bound to that Subscription and its status is set to
  \<open>SUCCESSFUL\<close>.
\<close>

theorem link_twice_is_link_once:
  "process_filing_webhook_event k (snd (process_filing_webhook_event k w))
     = process_filing_webhook_event k w
   \<and> (events (store w) k = Some e \<and> truthy_int (docket_id e) \<and>
      objects_get Subscription_DoesNotExist Subscription_MultipleObjectsReturned
           (\<lambda>s. cl_docket_id s = docket_id e) (subscriptions (store w)) = Inr s \<longrightarrow>
      process_filing_webhook_event k w =
           (Inr (e\<lparr>subscription := Some s, status := SUCCESSFUL\<rparr>),
            save k (e\<lparr>subscription := Some s, status := SUCCESSFUL\<rparr>) w))"
  using link_idem link_found by blast

theorem link_twice_is_link_once_witness:
  "process_filing_webhook_event 5
     (snd (process_filing_webhook_event 5
            (world1 (event1 (Some 42) None ''Order on motion'' RECEIVED None))))
   = process_filing_webhook_event 5
       (world1 (event1 (Some 42) None ''Order on motion'' RECEIVED None))
   \<and> process_filing_webhook_event 5
       (world1 (event1 (Some 42) None ''Order on motion'' RECEIVED None))
     = (Inr (event1 (Some 42) None ''Order on motion'' SUCCESSFUL (Some sub1)),
        save 5 (event1 (Some 42) None ''Order on motion'' SUCCESSFUL (Some sub1))
          (world1 (event1 (Some 42) None ''Order on motion'' RECEIVED None)))"
proof -
  let ?e = "event1 (Some 42) None ''Order on motion'' RECEIVED None"
  note t = link_twice_is_link_once [of 5 "world1 ?e" ?e sub1]
  have h: "events (store (world1 ?e)) 5 = Some ?e \<and> truthy_int (docket_id ?e) \<and>
      objects_get Subscription_DoesNotExist Subscription_MultipleObjectsReturned
           (\<lambda>s. cl_docket_id s = docket_id ?e) (subscriptions (store (world1 ?e))) = Inr sub1"
    by (simp add: world1_def event1_def objects_get_def sub1_def sub2_def)
  have eq: "?e\<lparr>subscription := Some sub1, status := SUCCESSFUL\<rparr>
          = event1 (Some 42) None ''Order on motion'' SUCCESSFUL (Some sub1)"
    by (simp add: event1_def)
  have a: "process_filing_webhook_event 5 (snd (process_filing_webhook_event 5 (world1 ?e)))
             = process_filing_webhook_event 5 (world1 ?e)"
    using t by (rule conjunct1)
  have b: "process_filing_webhook_event 5 (world1 ?e) =
             (Inr (?e\<lparr>subscription := Some sub1, status := SUCCESSFUL\<rparr>),
              save 5 (?e\<lparr>subscription := Some sub1, status := SUCCESSFUL\<rparr>) (world1 ?e))"
    using t h by blast
  show ?thesis using a b[unfolded eq] by (rule conjI)
qed

text \<open>
  Claim C4 as stated fails in its second half: an event that Link has linked and that the
  pre-post check has set to \<open>IGNORED\<close> has its subscription set, and replaying Link for
  it is neither a no-op nor rejected: the status goes back to \<open>SUCCESSFUL\<close>.
\<close>

theorem link_replay_resets_ignored_event:
  "map_option status (events (store (run_all (env1 None [31]) [Link 5, Pre_post_check 5]
       (world1 (event1 (Some 42) None ''Notice of Appearance filed'' RECEIVED None)))) 5)
     = Some IGNORED
   \<and> map_option subscription (events (store (run_all (env1 None [31]) [Link 5, Pre_post_check 5]
       (world1 (event1 (Some 42) None ''Notice of Appearance filed'' RECEIVED None)))) 5)
     = Some (Some sub1)
   \<and> map_option status (events (store (run_all (env1 None [31])
       [Link 5, Pre_post_check 5, Link 5]
       (world1 (event1 (Some 42) None ''Notice of Appearance filed'' RECEIVED None)))) 5)
     = Some SUCCESSFUL"
proof -
  let ?e0 = "event1 (Some 42) None ''Notice of Appearance filed'' RECEIVED None"
  let ?e1 = "event1 (Some 42) None ''Notice of Appearance filed'' SUCCESSFUL (Some sub1)"
  let ?e2 = "event1 (Some 42) None ''Notice of Appearance filed'' IGNORED (Some sub1)"
  have get: "\<And>w. subscriptions (store w) = [sub1, sub2] \<Longrightarrow>
       objects_get Subscription_DoesNotExist Subscription_MultipleObjectsReturned
           (\<lambda>s. cl_docket_id s = Some 42) (subscriptions (store w)) = Inr sub1"
    by (simp add: objects_get_def sub1_def sub2_def)
  have l1: "process_filing_webhook_event 5 (world1 ?e0) = (Inr ?e1, save 5 ?e1 (world1 ?e0))"
    using link_found[of "world1 ?e0" 5 ?e0 sub1] get[of "world1 ?e0"]
    by (simp add: world1_def event1_def)
  have c: "check_webhook_before_posting (env1 None [31]) 5 (save 5 ?e1 (world1 ?e0))
             = (Inr ?e2, save 5 ?e2 (save 5 ?e1 (world1 ?e0)))"
    using check_ignored[of "save 5 ?e1 (world1 ?e0)" 5 ?e1 sub1 "env1 None [31]"] notice_suppressed
    by (simp add: save_def event1_def)
  have l2: "process_filing_webhook_event 5 (save 5 ?e2 (save 5 ?e1 (world1 ?e0)))
             = (Inr ?e1, save 5 ?e1 (save 5 ?e2 (save 5 ?e1 (world1 ?e0))))"
    using link_found[of "save 5 ?e2 (save 5 ?e1 (world1 ?e0))" 5 ?e2 sub1]
      get[of "save 5 ?e2 (save 5 ?e1 (world1 ?e0))"]
    by (simp add: world1_def event1_def save_def)
  show ?thesis
    by (simp add: run_all_def l1 c l2) (simp add: save_def event1_def)
qed

section \<open>Fan-out\<close>

text \<open>
  Claim C5 does not hold of the code. Subscription 12 is visible to three channels, 21, 23
  and 22, of which 23 belongs to no group. The dispatch of an event linked to it enqueues
  the job of channel 21, raises AttributeError at channel 23
  (\<open>channel.group.sponsorships\<close>) and enqueues nothing for channels 23 and 22: one job,
  not three.
\<close>

theorem fan_out_stops_at_channel_without_group:
  "enqueue_posts_for_docket_alert (env1 None [31]) 5
     (event1 (Some 43) None ''Order on motion'' SUCCESSFUL (Some sub2)) None False
     (world1 (event1 (Some 43) None ''Order on motion'' SUCCESSFUL (Some sub2)))
   = (Inl AttributeError,
      (world1 (event1 (Some 43) None ''Order on motion'' SUCCESSFUL (Some sub2)))
        \<lparr>queue := [(Make_post 21 5 None None, \<lparr>retry_max = 3, retry_interval = [10, 20, 30]\<rparr>)]\<rparr>)"
  by (simp add: enqueue_posts_for_docket_alert_def event1_def sub2_def env1_simps
      channel1_def channel2_def channel3_def group1_def enqueue_def retry_policy_def
      world1_def Let_def)

section \<open>Fetch completion\<close>




section \<open>Claims about events without a subscription\<close>

text \<open>
  Claim C7, as amended. For an event without a linked subscription:
  \<open>check_webhook_before_posting\<close> raises AssertionError when the status is
  \<open>SUCCESSFUL\<close> and returns the event unchanged in any other status;
  \<open>process_fetch_webhook_event\<close> raises AssertionError; \<open>make_post_for_webhook_event\<close>,
  once it has found its channel, raises AssertionError; each of them leaves the world as it
  was. The fan-out \<open>enqueue_posts_for_docket_alert\<close> does not raise: it returns without
  enqueuing anything.
\<close>

theorem unlinked_event_raises_or_is_skipped:
  assumes "events (store w) k = Some e" and "subscription e = None"
  shows "(status e = SUCCESSFUL \<longrightarrow>
            check_webhook_before_posting E k w = (Inl AssertionError, w))
       \<and> (status e \<noteq> SUCCESSFUL \<longrightarrow> check_webhook_before_posting E k w = (Inr e, w))
       \<and> process_fetch_webhook_event E k filing_webhook w = (Inl AssertionError, w)
       \<and> (objects_get Channel_DoesNotExist Channel_MultipleObjectsReturned
             (\<lambda>c. channel_pk c = c_pk) (channels (store w)) = Inr ch \<longrightarrow>
            make_post_for_webhook_event E c_pk k url spons w = (Inl AssertionError, w))
       \<and> enqueue_posts_for_docket_alert E k e url flag w = (Inr (), w)"
  using assms check_unlinked[of w k e E] check_not_successful[of w k e E]
    fetch_unlinked[of w k e E] make_post_unlinked[of c_pk w ch k e E url spons]
  by (simp add: enqueue_posts_for_docket_alert_def)

theorem unlinked_event_raises_or_is_skipped_witness:
  "check_webhook_before_posting (env1 None [31]) 5
     (world1 (event1 (Some 42) None ''Order on motion'' SUCCESSFUL None))
     = (Inl AssertionError, world1 (event1 (Some 42) None ''Order on motion'' SUCCESSFUL None))
   \<and> check_webhook_before_posting (env1 None [31]) 5
     (world1 (event1 (Some 42) None ''Order on motion'' FAILED None))
     = (Inr (event1 (Some 42) None ''Order on motion'' FAILED None),
        world1 (event1 (Some 42) None ''Order on motion'' FAILED None))
   \<and> process_fetch_webhook_event (env1 None [31]) 5 filing_webhook
     (world1 (event1 (Some 42) None ''Order on motion'' SUCCESSFUL None))
     = (Inl AssertionError, world1 (event1 (Some 42) None ''Order on motion'' SUCCESSFUL None))
   \<and> make_post_for_webhook_event (env1 None [31]) 22 5 None None
     (world1 (event1 (Some 42) None ''Order on motion'' SUCCESSFUL None))
     = (Inl AssertionError, world1 (event1 (Some 42) None ''Order on motion'' SUCCESSFUL None))"
  using unlinked_event_raises_or_is_skipped [of "world1 (event1 (Some 42) None ''Order on motion'' SUCCESSFUL None)" 5
               "event1 (Some 42) None ''Order on motion'' SUCCESSFUL None" "env1 None [31]"
               22 channel2 None None True]
        unlinked_event_raises_or_is_skipped [of "world1 (event1 (Some 42) None ''Order on motion'' FAILED None)" 5
               "event1 (Some 42) None ''Order on motion'' FAILED None" "env1 None [31]"
               22 channel2 None None True]
  by (simp add: world1_def event1_def objects_get_def channel1_def channel2_def channel3_def)

text \<open>
  Claim C7 as stated fails for the fan-out: on an event without subscription it returns
  normally and silently.
\<close>

theorem dispatch_of_unlinked_event_is_silent:
  "subscription (event1 (Some 42) None ''Order on motion'' SUCCESSFUL None) = None
   \<and> enqueue_posts_for_docket_alert (env1 None [31]) 5
       (event1 (Some 42) None ''Order on motion'' SUCCESSFUL None) None False
       (world1 (event1 (Some 42) None ''Order on motion'' SUCCESSFUL None))
     = (Inr (), world1 (event1 (Some 42) None ''Order on motion'' SUCCESSFUL None))"
  by (simp add: enqueue_posts_for_docket_alert_def event1_def)

section \<open>The post-suppression pattern\<close>

text \<open>
  Claim C9, as amended. \<open>DO_NOT_POST\<close> matches a description if and only if the
  description contains one of the six phrases anywhere, also inside a longer word: the
  letters in either case, and each blank of the phrase as exactly one whitespace
  character.
\<close>

theorem DO_NOT_POST_matches_phrases_anywhere:
  "search DO_NOT_POST d \<longleftrightarrow> (\<exists>ph\<in>set suppressed_phrases. contains_phrase ph d)"
proof -
  have "search DO_NOT_POST d \<longleftrightarrow>
     (\<exists>ph\<in>set suppressed_phrases. \<exists>pre mid suf. d = pre @ mid @ suf \<and>
         list_all2 atom_matches (phrase_atoms ph) mid)"
    by (simp add: search_iff DO_NOT_POST_phrases)
  also have "\<dots> \<longleftrightarrow> (\<exists>ph\<in>set suppressed_phrases. contains_phrase ph d)"
    using suppressed_phrases_letters by (simp add: contains_phrase_def atoms_match_phrase)
  finally show ?thesis .
qed

theorem DO_NOT_POST_matches_phrases_anywhere_witness:
  "\<exists>ph\<in>set suppressed_phrases. contains_phrase ph (str ''Order nonetheless granted'')"
  using DO_NOT_POST_matches_phrases_anywhere [of "str ''Order nonetheless granted''"] nonetheless_suppressed by simp

text \<open>
  Claim C9 as stated fails: "nonetheless" holds "none" only as part of a longer word, so
  no phrase occurs in the description as a whole word, and the pattern matches it all the
  same.
\<close>

theorem DO_NOT_POST_matches_inside_a_word:
  "search DO_NOT_POST (str ''Order nonetheless granted'')
   \<and> \<not> whole_phrase_search suppressed_phrases True (str ''Order nonetheless granted'')"
  using nonetheless_suppressed
  by (simp add: suppressed_phrases_def str_def whole_phrase_here_def phrase_char_def word_char_def
      ignorecase_variants_def is_space_def)

end
